theory Spec2Isabelle
  imports Main
begin

section \<open>Python strings\<close>

text \<open>
  A Python \<open>str\<close> is modelled as a HOL \<open>string\<close>, a \<open>char\<close> standing for the code point
  of the same number: the model covers the strings of code points below 256 (Latin-1),
  and the string methods below act on them as Python does. A value that may be \<open>None\<close>
  (a missing mail header, a missing JSON key) is a \<open>string option\<close>.
\<close>

datatype exn =
    ValueError
  | AttributeError
  | IndexError
  | UnicodeDecodeError
  | BadRequest
  | ServiceError

text \<open>\<open>str.lower()\<close>: the cased characters below 256 are the letters \<open>A\<close> to \<open>Z\<close> and the
  code points \<open>0xC0\<close> to \<open>0xDE\<close> without \<open>0xD7\<close>; each is mapped to the code point 32
  above it.\<close>

definition uppercase :: string where
  "uppercase =
     ''ABCDEFGHIJKLMNOPQRSTUVWXYZ'' @
     [CHR 0xC0, CHR 0xC1, CHR 0xC2, CHR 0xC3, CHR 0xC4, CHR 0xC5, CHR 0xC6, CHR 0xC7,
      CHR 0xC8, CHR 0xC9, CHR 0xCA, CHR 0xCB, CHR 0xCC, CHR 0xCD, CHR 0xCE, CHR 0xCF,
      CHR 0xD0, CHR 0xD1, CHR 0xD2, CHR 0xD3, CHR 0xD4, CHR 0xD5, CHR 0xD6, CHR 0xD8,
      CHR 0xD9, CHR 0xDA, CHR 0xDB, CHR 0xDC, CHR 0xDD, CHR 0xDE]"

definition lowercase :: string where
  "lowercase =
     ''abcdefghijklmnopqrstuvwxyz'' @
     [CHR 0xE0, CHR 0xE1, CHR 0xE2, CHR 0xE3, CHR 0xE4, CHR 0xE5, CHR 0xE6, CHR 0xE7,
      CHR 0xE8, CHR 0xE9, CHR 0xEA, CHR 0xEB, CHR 0xEC, CHR 0xED, CHR 0xEE, CHR 0xEF,
      CHR 0xF0, CHR 0xF1, CHR 0xF2, CHR 0xF3, CHR 0xF4, CHR 0xF5, CHR 0xF6, CHR 0xF8,
      CHR 0xF9, CHR 0xFA, CHR 0xFB, CHR 0xFC, CHR 0xFD, CHR 0xFE]"

definition case_pairs :: "(char \<times> char) list" where
  "case_pairs = zip uppercase lowercase"

definition py_lower_char :: "char \<Rightarrow> char" where
  "py_lower_char c = (case map_of case_pairs c of None \<Rightarrow> c | Some d \<Rightarrow> d)"

definition py_lower :: "string \<Rightarrow> string" where
  "py_lower s = map py_lower_char s"

text \<open>\<open>str.strip()\<close>: the characters for which \<open>str.isspace()\<close> holds are removed from
  both ends.\<close>

definition py_isspace :: "char \<Rightarrow> bool" where
  "py_isspace c \<longleftrightarrow>
     c \<in> set [CHR 0x09, CHR 0x0A, CHR 0x0B, CHR 0x0C, CHR 0x0D,
               CHR 0x1C, CHR 0x1D, CHR 0x1E, CHR 0x1F, CHR 0x20, CHR 0x85, CHR 0xA0]"

definition strip_where :: "(char \<Rightarrow> bool) \<Rightarrow> string \<Rightarrow> string" where
  "strip_where P s = rev (dropWhile P (rev (dropWhile P s)))"

definition py_strip :: "string \<Rightarrow> string" where
  "py_strip s = strip_where py_isspace s"

text \<open>\<open>s.startswith(p)\<close>.\<close>

definition startswith :: "string \<Rightarrow> string \<Rightarrow> bool" where
  "startswith s p \<longleftrightarrow> take (length p) s = p"

text \<open>\<open>s.replace('"', '')\<close>.\<close>

definition remove_quotes :: "string \<Rightarrow> string" where
  "remove_quotes s = filter (\<lambda>c. c \<noteq> CHR 0x22) s"

text \<open>An f-string field \<open>{x}\<close>: \<open>None\<close> is printed as the text \<open>None\<close>.\<close>

fun py_format :: "string option \<Rightarrow> string" where
  "py_format None = ''None''"
| "py_format (Some s) = s"

text \<open>
  \<open>int(s)\<close>: white space around the literal (for \<open>int\<close> the characters \<open>0x1C\<close> to
  \<open>0x1F\<close> are not white space), an optional sign, decimal digits with single
  underscores between digits, and at most 4300 digits, the default limit. Anything
  else raises \<open>ValueError\<close> (\<open>None\<close> here).
\<close>

definition int_isspace :: "char \<Rightarrow> bool" where
  "int_isspace c \<longleftrightarrow>
     c \<in> set [CHR 0x09, CHR 0x0A, CHR 0x0B, CHR 0x0C, CHR 0x0D, CHR 0x20, CHR 0x85, CHR 0xA0]"

definition digit_of :: "char \<Rightarrow> nat option" where
  "digit_of c = map_of (zip ''0123456789'' [0, 1, 2, 3, 4, 5, 6, 7, 8, 9]) c"

fun py_digits :: "nat \<Rightarrow> string \<Rightarrow> nat option" where
  "py_digits acc [] = Some acc"
| "py_digits acc (c # cs) =
     (if c = CHR ''_'' then
        (case cs of
           [] \<Rightarrow> None
         | d # ds \<Rightarrow>
             (case digit_of d of
                None \<Rightarrow> None
              | Some v \<Rightarrow> py_digits (10 * acc + v) ds))
      else
        (case digit_of c of
           None \<Rightarrow> None
         | Some v \<Rightarrow> py_digits (10 * acc + v) cs))"

definition py_unsigned :: "string \<Rightarrow> nat option" where
  "py_unsigned s =
     (if 4300 < length (filter (\<lambda>c. c \<noteq> CHR ''_'') s) then None
      else
        (case s of
           [] \<Rightarrow> None
         | d # ds \<Rightarrow> (case digit_of d of None \<Rightarrow> None | Some v \<Rightarrow> py_digits v ds)))"

definition py_int :: "string \<Rightarrow> int option" where
  "py_int s =
     (case strip_where int_isspace s of
        [] \<Rightarrow> None
      | c # cs \<Rightarrow>
          if c = CHR ''-'' then map_option (\<lambda>n. - int n) (py_unsigned cs)
          else if c = CHR ''+'' then map_option int (py_unsigned cs)
          else map_option int (py_unsigned (c # cs)))"

section \<open>The collaborators and the log of their calls\<close>

text \<open>
  The program talks to three services: the chat-completion API, the SMTP server and
  the IMAP mailbox. The first two are parameters of the model. Each is a function of
  the calls made so far and of the request, so a service may answer the same request
  differently each time.

  \<^item> \<open>chat_api\<close> stands for \<open>openai.chat.completions.create(...)\<close> followed by
    \<open>.choices[0].message.content\<close>: an exception, or the content, which may be \<open>None\<close>.
    The model name, \<open>max_tokens\<close> and \<open>temperature\<close> are constants of each call site
    and belong to the service.
  \<^item> \<open>smtp_api\<close> stands for the body of the \<open>try\<close> block of \<open>send_email_smtp\<close> (building
    the message with From, To, Subject and Reply-To, then STARTTLS, login, sendmail):
    \<open>True\<close> when it completes, \<open>False\<close> when any step raises.

  The log records every call of these two in order. Of the console output it keeps one
  line, the one \<open>handle_reply\<close> prints on entry, which marks each invocation of the
  handler.
\<close>

datatype event =
    Processing_reply "string option"
  | Chat string "exn + string option"
  | Smtp string string string string bool

record collab =
  chat_api :: "event list \<Rightarrow> string \<Rightarrow> exn + string option"
  smtp_api :: "event list \<Rightarrow> string \<Rightarrow> string \<Rightarrow> string \<Rightarrow> string \<Rightarrow> bool"

section \<open>SimpleSDR\<close>

record SimpleSDR =
  email_address :: string
  email_password :: string
  smtp_server :: string
  smtp_port :: int
  imap_server :: string
  company_name :: string
  company_description :: string
  conversations :: "string \<rightharpoonup> string"

text \<open>\<open>os.environ.get(key, default)\<close>.\<close>

definition environ_get :: "(string \<rightharpoonup> string) \<Rightarrow> string \<Rightarrow> string \<Rightarrow> string" where
  "environ_get environ key dflt = (case environ key of None \<Rightarrow> dflt | Some v \<Rightarrow> v)"

text \<open>\<open>SimpleSDR.__init__\<close>; \<open>environ\<close> is the process environment after \<open>load_dotenv\<close>.\<close>

definition SimpleSDR_init :: "(string \<rightharpoonup> string) \<Rightarrow> exn + SimpleSDR" where
  "SimpleSDR_init environ =
     (if environ ''OPENAI_API_KEY'' = None \<or> environ ''OPENAI_API_KEY'' = Some [] then
        Inl ValueError
      else
        (case py_int (environ_get environ ''SMTP_PORT'' ''587'') of
           None \<Rightarrow> Inl ValueError
         | Some port \<Rightarrow>
             Inr \<lparr> email_address = environ_get environ ''EMAIL_ADDRESS'' ''your-email@gmail.com'',
                   email_password = environ_get environ ''EMAIL_PASSWORD'' ''your-app-password'',
                   smtp_server = environ_get environ ''SMTP_SERVER'' ''smtp.gmail.com'',
                   smtp_port = port,
                   imap_server = environ_get environ ''IMAP_SERVER'' ''imap.gmail.com'',
                   company_name = ''ComplAI'',
                   company_description = ''AI-powered SOC2 compliance automation'',
                   conversations = Map.empty \<rparr>))"

subsection \<open>The conversation memory\<close>

text \<open>
  The dictionary \<open>self.conversations\<close> is read in one place,
  \<open>self.conversations.get(from_email.lower(), "")\<close> in \<open>handle_reply\<close>, and written in
  two, \<open>self.conversations[recipient.lower()] = ...\<close> in \<open>run_cold_email_campaign\<close> and
  \<open>self.conversations[conversation_key] = ...\<close> in \<open>handle_reply\<close>.
\<close>

definition conversation_key :: "string \<Rightarrow> string" where
  "conversation_key address = py_lower address"

definition conversations_get :: "SimpleSDR \<Rightarrow> string \<Rightarrow> string" where
  "conversations_get sdr address =
     (case conversations sdr (conversation_key address) of None \<Rightarrow> [] | Some t \<Rightarrow> t)"

definition conversations_put :: "SimpleSDR \<Rightarrow> string \<Rightarrow> string \<Rightarrow> SimpleSDR" where
  "conversations_put sdr address thread =
     sdr\<lparr>conversations := (conversations sdr)(conversation_key address \<mapsto> thread)\<rparr>"

subsection \<open>Calling the chat API\<close>

text \<open>
  \<open>response = openai.chat.completions.create(...)\<close>,
  \<open>response.choices[0].message.content.strip()\<close>: the stripped content, or the exception
  raised on the way (\<open>AttributeError\<close> when the content is \<open>None\<close>).
\<close>

definition chat_completion :: "collab \<Rightarrow> string \<Rightarrow> event list \<Rightarrow> (exn + string) \<times> event list" where
  "chat_completion c prompt log =
     (let r = chat_api c log prompt in
      ((case r of
          Inl e \<Rightarrow> Inl e
        | Inr None \<Rightarrow> Inl AttributeError
        | Inr (Some content) \<Rightarrow> Inr (py_strip content)),
       log @ [Chat prompt r]))"

definition indent :: string where
  "indent = ''        ''"

subsection \<open>generate_cold_email\<close>

definition personas :: "(string \<times> string) list" where
  "personas =
     [(''professional'', ''Write a professional, formal cold sales email''),
      (''engaging'', ''Write a witty, engaging cold sales email that's likely to get a response''),
      (''concise'', ''Write a brief, direct cold sales email that gets straight to the point'')]"

definition personas_get :: "string \<Rightarrow> string" where
  "personas_get persona =
     (case map_of personas persona of
        None \<Rightarrow> ''Write a professional, formal cold sales email''
      | Some instruction \<Rightarrow> instruction)"

definition cold_email_prompt :: "SimpleSDR \<Rightarrow> string \<Rightarrow> string \<Rightarrow> string" where
  "cold_email_prompt sdr persona recipient =
     ''\<newline>'' @ indent @ personas_get persona @ ''.\<newline>'' @
     indent @ ''\<newline>'' @
     indent @ ''Company: '' @ company_name sdr @ ''\<newline>'' @
     indent @ ''Product: '' @ company_description sdr @ ''\<newline>'' @
     indent @ ''Recipient: '' @ recipient @ ''\<newline>'' @
     indent @ ''\<newline>'' @
     indent @ ''Make it compelling and personalized. Include a clear call to action.\<newline>'' @
     indent @ ''Keep it under 150 words.\<newline>'' @
     indent"

definition cold_email_fallback :: "SimpleSDR \<Rightarrow> string \<Rightarrow> string" where
  "cold_email_fallback sdr recipient =
     ''Hi '' @ recipient @ '',\<newline>\<newline>I'd love to show you how '' @ company_name sdr @
     '' can help with '' @ company_description sdr @
     ''.\<newline>\<newline>Interested in a quick chat?\<newline>\<newline>Best regards''"

definition generate_cold_email ::
  "collab \<Rightarrow> SimpleSDR \<Rightarrow> string \<Rightarrow> string \<Rightarrow> event list \<Rightarrow> string \<times> event list" where
  "generate_cold_email c sdr persona recipient log =
     (case chat_completion c (cold_email_prompt sdr persona recipient) log of
        (Inr content, log') \<Rightarrow> (content, log')
      | (Inl e, log') \<Rightarrow> (cold_email_fallback sdr recipient, log'))"

subsection \<open>select_best_email\<close>

definition select_prompt :: "string \<Rightarrow> string \<Rightarrow> string \<Rightarrow> string" where
  "select_prompt e0 e1 e2 =
     ''\<newline>'' @ indent @
     ''Pick the best cold sales email from these options. Consider which one a busy executive would be most likely to respond to.\<newline>'' @
     indent @ ''\<newline>'' @
     indent @ ''Return only the selected email, no explanation.\<newline>'' @
     indent @ ''\<newline>'' @
     indent @ ''Options:\<newline>'' @
     indent @ ''\<newline>'' @
     indent @ ''1. '' @ e0 @ ''\<newline>'' @
     indent @ ''\<newline>'' @
     indent @ ''2. '' @ e1 @ ''\<newline>'' @
     indent @ ''\<newline>'' @
     indent @ ''3. '' @ e2 @ ''\<newline>'' @
     indent"

text \<open>
  The prompt reads \<open>emails[0]\<close>, \<open>emails[1]\<close> and \<open>emails[2]\<close> before the \<open>try\<close> block is
  entered: on a list of fewer than three elements the first missing index raises
  \<open>IndexError\<close>, and no call is made.
\<close>

fun select_best_email :: "collab \<Rightarrow> string list \<Rightarrow> event list \<Rightarrow> (exn + string) \<times> event list" where
  "select_best_email c (e0 # e1 # e2 # rest) log =
     (case chat_completion c (select_prompt e0 e1 e2) log of
        (Inr content, log') \<Rightarrow> (Inr content, log')
      | (Inl e, log') \<Rightarrow> (Inr e0, log'))"
| "select_best_email c emails log = (Inl IndexError, log)"

subsection \<open>send_email_smtp\<close>

definition send_email_smtp ::
  "collab \<Rightarrow> SimpleSDR \<Rightarrow> string \<Rightarrow> string \<Rightarrow> string \<Rightarrow> event list \<Rightarrow> bool \<times> event list" where
  "send_email_smtp c sdr to_email subject body log =
     (let ok = smtp_api c log (email_address sdr) to_email subject body in
      (ok, log @ [Smtp (email_address sdr) to_email subject body ok]))"

subsection \<open>generate_reply\<close>

definition reply_prompt :: "SimpleSDR \<Rightarrow> string \<Rightarrow> string option \<Rightarrow> string" where
  "reply_prompt sdr original_email reply_content =
     ''\<newline>'' @ indent @ ''You are a sales representative for '' @ company_name sdr @
       '', which provides '' @ company_description sdr @ ''.\<newline>'' @
     indent @ ''\<newline>'' @
     indent @ ''A prospect replied to your cold email. Generate a helpful, professional response that continues the conversation.\<newline>'' @
     indent @ ''\<newline>'' @
     indent @ ''Original email you sent:\<newline>'' @
     indent @ original_email @ ''\<newline>'' @
     indent @ ''\<newline>'' @
     indent @ ''Their reply:\<newline>'' @
     indent @ py_format reply_content @ ''\<newline>'' @
     indent @ ''\<newline>'' @
     indent @ ''Write a response that:\<newline>'' @
     indent @ ''1. Acknowledges their reply\<newline>'' @
     indent @ ''2. Provides helpful information\<newline>'' @
     indent @ ''3. Moves the conversation forward\<newline>'' @
     indent @ ''4. Includes a clear next step\<newline>'' @
     indent @ ''\<newline>'' @
     indent @ ''Keep it conversational and under 200 words.\<newline>'' @
     indent"

definition reply_fallback :: string where
  "reply_fallback =
     ''Thank you for your reply! I'd love to continue our conversation. When would be a good time for a brief call?''"

definition generate_reply ::
  "collab \<Rightarrow> SimpleSDR \<Rightarrow> string \<Rightarrow> string option \<Rightarrow> event list \<Rightarrow> string \<times> event list" where
  "generate_reply c sdr original_email reply_content log =
     (case chat_completion c (reply_prompt sdr original_email reply_content) log of
        (Inr content, log') \<Rightarrow> (content, log')
      | (Inl e, log') \<Rightarrow> (reply_fallback, log'))"

subsection \<open>handle_reply\<close>

text \<open>\<open>f"Re: {subject}" if not subject.startswith('Re:') else subject\<close>.\<close>

definition reply_subject :: "string \<Rightarrow> string" where
  "reply_subject subject = (if \<not> startswith subject ''Re:'' then ''Re: '' @ subject else subject)"

text \<open>
  \<open>f"{original_email}\n\n--- THEIR REPLY ---\n{body}\n\n--- MY REPLY ---\n{reply}"\<close>.
\<close>

definition updated_thread :: "string \<Rightarrow> string option \<Rightarrow> string \<Rightarrow> string" where
  "updated_thread original_email body reply =
     original_email @ ''\<newline>\<newline>--- THEIR REPLY ---\<newline>'' @ py_format body @
     ''\<newline>\<newline>--- MY REPLY ---\<newline>'' @ reply"

text \<open>
  \<open>handle_reply\<close> mutates \<open>self.conversations\<close> as its last step only, so when it raises
  the object is as it was on entry: the model returns the exception, or the object
  after the call. \<open>from_email.lower()\<close> and \<open>subject.startswith\<close> raise
  \<open>AttributeError\<close> on \<open>None\<close>.
\<close>

definition handle_reply ::
  "collab \<Rightarrow> SimpleSDR \<Rightarrow> string option \<Rightarrow> string option \<Rightarrow> string option \<Rightarrow> event list
     \<Rightarrow> (exn + SimpleSDR) \<times> event list" where
  "handle_reply c sdr from_email subject body log =
     (let log0 = log @ [Processing_reply from_email] in
      case from_email of
        None \<Rightarrow> (Inl AttributeError, log0)
      | Some from_addr \<Rightarrow>
          (let original_email = conversations_get sdr from_addr;
               (reply, log1) = generate_reply c sdr original_email body log0
           in case subject of
                None \<Rightarrow> (Inl AttributeError, log1)
              | Some subj \<Rightarrow>
                  (let (success, log2) = send_email_smtp c sdr from_addr (reply_subject subj) reply log1
                   in if success then
                        (Inr (conversations_put sdr from_addr (updated_thread original_email body reply)), log2)
                      else (Inr sdr, log2))))"

subsection \<open>run_cold_email_campaign\<close>

text \<open>The loop over \<open>personas\<close>: \<open>emails.append(self.generate_cold_email(persona))\<close>, the
  recipient title left at its default \<open>"CEO"\<close>.\<close>

fun generate_emails ::
  "collab \<Rightarrow> SimpleSDR \<Rightarrow> string list \<Rightarrow> event list \<Rightarrow> string list \<times> event list" where
  "generate_emails c sdr [] log = ([], log)"
| "generate_emails c sdr (persona # ps) log =
     (let (email_content, log1) = generate_cold_email c sdr persona ''CEO'' log;
          (emails, log2) = generate_emails c sdr ps log1
      in (email_content # emails, log2))"

definition subject_prompt :: "string \<Rightarrow> string" where
  "subject_prompt best_email =
     ''Write a compelling email subject line for this cold sales email:\<newline>\<newline>'' @ best_email @
     ''\<newline>\<newline>Make it likely to get opened. Under 50 characters.''"

text \<open>Step 3 of the loop body: the subject line, with its bare \<open>except\<close>.\<close>

definition generate_subject ::
  "collab \<Rightarrow> SimpleSDR \<Rightarrow> string \<Rightarrow> event list \<Rightarrow> string \<times> event list" where
  "generate_subject c sdr best_email log =
     (case chat_completion c (subject_prompt best_email) log of
        (Inr content, log') \<Rightarrow> (remove_quotes content, log')
      | (Inl e, log') \<Rightarrow> (''Quick question about '' @ company_name sdr, log'))"

text \<open>The body of the loop over \<open>recipients\<close>. The 30 second pause is not modelled.\<close>

definition campaign_step ::
  "collab \<Rightarrow> SimpleSDR \<Rightarrow> string \<Rightarrow> event list \<Rightarrow> (exn + SimpleSDR) \<times> event list" where
  "campaign_step c sdr recipient log =
     (let (emails, log1) = generate_emails c sdr [''professional'', ''engaging'', ''concise''] log
      in case select_best_email c emails log1 of
           (Inl e, log2) \<Rightarrow> (Inl e, log2)
         | (Inr best_email, log2) \<Rightarrow>
             (let (subject, log3) = generate_subject c sdr best_email log2;
                  (success, log4) = send_email_smtp c sdr recipient subject best_email log3
              in if success then (Inr (conversations_put sdr recipient best_email), log4)
                 else (Inr sdr, log4)))"

text \<open>The campaign returns the exception that ended it, if any, the object as the
  campaign left it, and the log.\<close>

fun run_cold_email_campaign ::
  "collab \<Rightarrow> SimpleSDR \<Rightarrow> string list \<Rightarrow> event list \<Rightarrow> exn option \<times> SimpleSDR \<times> event list" where
  "run_cold_email_campaign c sdr [] log = (None, sdr, log)"
| "run_cold_email_campaign c sdr (recipient # rs) log =
     (case campaign_step c sdr recipient log of
        (Inl e, log') \<Rightarrow> (Some e, sdr, log')
      | (Inr sdr', log') \<Rightarrow> run_cold_email_campaign c sdr' rs log')"

section \<open>The IMAP mailbox and check_for_replies\<close>

text \<open>
  A fetched message as \<open>email.message_from_bytes\<close> presents it: the From and Subject
  headers (\<open>None\<close> when the header is missing), whether it is multipart, the parts that
  \<open>walk()\<close> yields with their content type, and for each part and for the message the
  outcome of \<open>get_payload(decode=True).decode()\<close>.
\<close>

datatype part = Part (content_type: string) (decoded: "exn + string")

record email_message =
  header_From :: "string option"
  header_Subject :: "string option"
  is_multipart :: bool
  walk :: "part list"
  payload :: "exn + string"

text \<open>The loop over \<open>walk()\<close>: the first \<open>text/plain\<close> part, else the initial \<open>""\<close>.\<close>

fun first_plain_part :: "part list \<Rightarrow> exn + string" where
  "first_plain_part [] = Inr []"
| "first_plain_part (p # ps) =
     (if content_type p = ''text/plain'' then decoded p else first_plain_part ps)"

definition message_body :: "email_message \<Rightarrow> exn + string" where
  "message_body email_message =
     (if is_multipart email_message then first_plain_part (walk email_message)
      else payload email_message)"

text \<open>
  The mailbox: whether connecting, logging in and selecting the inbox succeed, whether
  the search answers \<open>OK\<close>, and the messages, each with its \<open>\Seen\<close> flag and whether
  fetching it answers \<open>OK\<close>. A message is identified by its position.
\<close>

record imap_entry =
  seen :: bool
  fetch_ok :: bool
  message :: email_message

record mailbox =
  login_ok :: bool
  search_ok :: bool
  entries :: "imap_entry list"

text \<open>\<open>mail.search(None, 'UNSEEN')\<close>.\<close>

definition search_unseen :: "mailbox \<Rightarrow> nat list" where
  "search_unseen mail = filter (\<lambda>i. \<not> seen (entries mail ! i)) [0 ..< length (entries mail)]"

text \<open>\<open>mail.store(msg_id, '+FLAGS', '\\Seen')\<close>.\<close>

definition store_seen :: "nat \<Rightarrow> mailbox \<Rightarrow> mailbox" where
  "store_seen msg_id mail =
     mail\<lparr>entries := (entries mail)[msg_id := (entries mail ! msg_id)\<lparr>seen := True\<rparr>]\<rparr>"

text \<open>
  \<open>mail.fetch(msg_id, '(RFC822)')\<close>: the mailbox after the fetch. The inbox is selected
  read-write (\<open>mail.select('inbox')\<close>) and the whole message is fetched without
  \<open>PEEK\<close>, so the server itself sets \<open>\Seen\<close> on a message it delivers (RFC 3501,
  section 6.4.5).
\<close>

definition fetch :: "nat \<Rightarrow> mailbox \<Rightarrow> mailbox" where
  "fetch msg_id mail =
     (if fetch_ok (entries mail ! msg_id) then store_seen msg_id mail else mail)"

text \<open>
  The loop over the message ids. An exception raised in its body (decoding the body,
  or \<open>handle_reply\<close>) leaves the loop; it is returned with the state reached. The last
  component is not computed by the program: it lists the ids of the messages that were
  handed to \<open>handle_reply\<close>, in order.
\<close>

fun process_messages ::
  "collab \<Rightarrow> nat list \<Rightarrow> SimpleSDR \<Rightarrow> mailbox \<Rightarrow> event list
     \<Rightarrow> exn option \<times> SimpleSDR \<times> mailbox \<times> event list \<times> nat list" where
  "process_messages c [] sdr mail log = (None, sdr, mail, log, [])"
| "process_messages c (msg_id # ids) sdr mail log =
     (let entry = entries mail ! msg_id;
          mail1 = fetch msg_id mail
      in if fetch_ok entry then
           (case message_body (message entry) of
              Inl e \<Rightarrow> (Some e, sdr, mail1, log, [])
            | Inr body \<Rightarrow>
                (case handle_reply c sdr (header_From (message entry))
                        (header_Subject (message entry)) (Some body) log of
                   (Inl e, log') \<Rightarrow> (Some e, sdr, mail1, log', [msg_id])
                 | (Inr sdr', log') \<Rightarrow>
                     (case process_messages c ids sdr' (store_seen msg_id mail1) log' of
                        (raised, sdr'', mail'', log'', handled) \<Rightarrow>
                          (raised, sdr'', mail'', log'', msg_id # handled))))
         else process_messages c ids sdr mail1 log)"

text \<open>
  \<open>check_for_replies\<close> catches every exception and returns nothing.
  \<open>check_for_replies_handled\<close> is its body, with the ids handed to \<open>handle_reply\<close>.
\<close>

definition check_for_replies_handled ::
  "collab \<Rightarrow> SimpleSDR \<Rightarrow> mailbox \<Rightarrow> event list
     \<Rightarrow> (SimpleSDR \<times> mailbox \<times> event list) \<times> nat list" where
  "check_for_replies_handled c sdr mail log =
     (if \<not> login_ok mail then ((sdr, mail, log), [])
      else if search_ok mail then
        (case process_messages c (search_unseen mail) sdr mail log of
           (raised, sdr', mail', log', handled) \<Rightarrow> ((sdr', mail', log'), handled))
      else ((sdr, mail, log), []))"

definition check_for_replies ::
  "collab \<Rightarrow> SimpleSDR \<Rightarrow> mailbox \<Rightarrow> event list \<Rightarrow> SimpleSDR \<times> mailbox \<times> event list" where
  "check_for_replies c sdr mail log = fst (check_for_replies_handled c sdr mail log)"

text \<open>Mail that arrives is appended to the inbox; the positions of the messages already
  there do not change.\<close>

definition deliver :: "imap_entry list \<Rightarrow> mailbox \<Rightarrow> mailbox" where
  "deliver new_mail mail = mail\<lparr>entries := entries mail @ new_mail\<rparr>"

text \<open>
  The loop of \<open>start_reply_monitoring\<close> never ends. \<open>monitor c arrivals n\<close> is its first
  \<open>n\<close> cycles, where \<open>arrivals k\<close> is the mail that arrives before cycle \<open>k\<close>; with the
  state it returns the ids handed to \<open>handle_reply\<close> in these cycles, in order.
\<close>

fun monitor ::
  "collab \<Rightarrow> (nat \<Rightarrow> imap_entry list) \<Rightarrow> nat \<Rightarrow> SimpleSDR \<Rightarrow> mailbox \<Rightarrow> event list
     \<Rightarrow> (SimpleSDR \<times> mailbox \<times> event list) \<times> nat list" where
  "monitor c arrivals 0 sdr mail log = ((sdr, mail, log), [])"
| "monitor c arrivals (Suc n) sdr mail log =
     (case monitor c arrivals n sdr mail log of
        ((sdr1, mail1, log1), handled1) \<Rightarrow>
          (case check_for_replies_handled c sdr1 (deliver (arrivals n) mail1) log1 of
             (state, handled2) \<Rightarrow> (state, handled1 @ handled2)))"

text \<open>The invocations of \<open>handle_reply\<close> that a log records.\<close>

fun is_processing :: "event \<Rightarrow> bool" where
  "is_processing (Processing_reply from_email) = True"
| "is_processing (Chat prompt answer) = False"
| "is_processing (Smtp sender to_email subject body ok) = False"

section \<open>The webhook\<close>

text \<open>
  \<open>handle_webhook_reply\<close> takes the JSON body of the request (\<open>request.json\<close> raises on a
  body that is not JSON), here an object whose values are strings, and answers 200 or
  500. It builds a new \<open>SimpleSDR\<close> for each request and refers to no other object.
\<close>

datatype response = Success_200 | Error_500 exn

definition handle_webhook_reply ::
  "collab \<Rightarrow> (string \<rightharpoonup> string) \<Rightarrow> exn + (string \<rightharpoonup> string) \<Rightarrow> event list
     \<Rightarrow> response \<times> event list" where
  "handle_webhook_reply c environ request_json log =
     (case request_json of
        Inl e \<Rightarrow> (Error_500 e, log)
      | Inr data \<Rightarrow>
          (case SimpleSDR_init environ of
             Inl e \<Rightarrow> (Error_500 e, log)
           | Inr sdr \<Rightarrow>
               (case handle_reply c sdr (data ''from'') (data ''subject'') (data ''body'') log of
                  (Inl e, log') \<Rightarrow> (Error_500 e, log')
                | (Inr sdr', log') \<Rightarrow> (Success_200, log'))))"

section \<open>The specification's words\<close>

text \<open>
  Two addresses differ only in letter case when they have the same length and agree
  position by position up to the case of a letter; they differ only in surrounding
  white space when stripping both gives the same string.
\<close>

definition same_letter :: "char \<Rightarrow> char \<Rightarrow> bool" where
  "same_letter x y \<longleftrightarrow>
     x = y \<or> (x, y) \<in> set case_pairs \<or> (y, x) \<in> set case_pairs"

definition differ_only_in_case :: "string \<Rightarrow> string \<Rightarrow> bool" where
  "differ_only_in_case a b \<longleftrightarrow> list_all2 same_letter a b"


section \<open>Example values\<close>

definition example_environ :: "string \<rightharpoonup> string" where
  "example_environ =
     [''OPENAI_API_KEY'' \<mapsto> ''sk-test'', ''EMAIL_ADDRESS'' \<mapsto> ''sdr@complai.test'']"

definition example_sdr :: SimpleSDR where
  "example_sdr =
     \<lparr> email_address = ''sdr@complai.test'',
       email_password = ''your-app-password'',
       smtp_server = ''smtp.gmail.com'',
       smtp_port = 587,
       imap_server = ''imap.gmail.com'',
       company_name = ''ComplAI'',
       company_description = ''AI-powered SOC2 compliance automation'',
       conversations = Map.empty \<rparr>"

text \<open>A chat API that is unreachable and an SMTP server that refuses every message.\<close>

definition unreachable :: collab where
  "unreachable =
     \<lparr> chat_api = (\<lambda>log prompt. Inl ServiceError),
       smtp_api = (\<lambda>log sender to_email subject body. False) \<rparr>"

text \<open>A chat API that is unreachable and an SMTP server that accepts every message.\<close>

definition smtp_only :: collab where
  "smtp_only =
     \<lparr> chat_api = (\<lambda>log prompt. Inl ServiceError),
       smtp_api = (\<lambda>log sender to_email subject body. True) \<rparr>"

text \<open>A chat API that answers every prompt with the same sentence.\<close>

definition off_script :: collab where
  "off_script =
     \<lparr> chat_api = (\<lambda>log prompt. Inr (Some ''I would rewrite all three.'')),
       smtp_api = (\<lambda>log sender to_email subject body. True) \<rparr>"

text \<open>The object after a campaign to \<open>a@b.com\<close> during which the chat API was unreachable.\<close>

definition campaign_sdr :: SimpleSDR where
  "campaign_sdr =
     conversations_put example_sdr ''a@b.com'' (cold_email_fallback example_sdr ''CEO'')"

text \<open>That object after a reply from \<open>Name <a@b.com>\<close> has been answered.\<close>

definition replied_sdr :: SimpleSDR where
  "replied_sdr =
     conversations_put campaign_sdr ''Name <a@b.com>''
       (updated_thread [] (Some ''Tell me more'') reply_fallback)"

text \<open>An object that holds the thread \<open>Hello\<close> for \<open>x@y.com\<close>, a reply from that address
  as the webhook receives it, and the same reply as an unseen message of the inbox.\<close>

definition seeded_sdr :: SimpleSDR where
  "seeded_sdr = conversations_put example_sdr ''x@y.com'' ''Hello''"

definition example_request :: "string \<rightharpoonup> string" where
  "example_request =
     [''from'' \<mapsto> ''x@y.com'', ''subject'' \<mapsto> ''Hi'', ''body'' \<mapsto> ''Tell me more'']"

definition example_message :: email_message where
  "example_message =
     \<lparr> header_From = Some ''x@y.com'', header_Subject = Some ''Hi'', is_multipart = False,
       walk = [], payload = Inr ''Tell me more'' \<rparr>"

definition example_inbox :: mailbox where
  "example_inbox =
     \<lparr> login_ok = True, search_ok = True,
       entries = [\<lparr> seen = False, fetch_ok = True, message = example_message \<rparr>] \<rparr>"

text \<open>An inbox whose one unseen message has no Subject header.\<close>

definition no_subject_message :: email_message where
  "no_subject_message =
     \<lparr> header_From = Some ''x@y.com'', header_Subject = None, is_multipart = False,
       walk = [], payload = Inr ''Tell me more'' \<rparr>"

definition no_subject_inbox :: mailbox where
  "no_subject_inbox =
     \<lparr> login_ok = True, search_ok = True,
       entries = [\<lparr> seen = False, fetch_ok = True, message = no_subject_message \<rparr>] \<rparr>"

section \<open>Properties\<close>

subsection \<open>The log and the cases of handle_reply\<close>

lemma chat_completion_log:
  "snd (chat_completion c prompt log) = log @ [Chat prompt (chat_api c log prompt)]"
  by (simp add: chat_completion_def Let_def)

lemma generate_reply_log:
  "snd (generate_reply c sdr original_email body log) =
     log @ [Chat (reply_prompt sdr original_email body)
              (chat_api c log (reply_prompt sdr original_email body))]"
  by (simp add: generate_reply_def chat_completion_def Let_def split: sum.splits option.splits)

lemma handle_reply_None_from:
  "handle_reply c sdr None subject body log = (Inl AttributeError, log @ [Processing_reply None])"
  by (simp add: handle_reply_def)

lemma handle_reply_None_subject:
  "handle_reply c sdr (Some a) None body log =
     (Inl AttributeError,
      snd (generate_reply c sdr (conversations_get sdr a) body (log @ [Processing_reply (Some a)])))"
  by (simp add: handle_reply_def Let_def split: prod.splits)

lemma handle_reply_Some:
  "handle_reply c sdr (Some a) (Some s) body log =
     (let original_email = conversations_get sdr a;
          g = generate_reply c sdr original_email body (log @ [Processing_reply (Some a)]);
          ok = smtp_api c (snd g) (email_address sdr) a (reply_subject s) (fst g)
      in (if ok then Inr (conversations_put sdr a (updated_thread original_email body (fst g)))
          else Inr sdr,
          snd g @ [Smtp (email_address sdr) a (reply_subject s) (fst g) ok]))"
  by (simp add: handle_reply_def send_email_smtp_def Let_def split: prod.splits)

lemma example_init: "SimpleSDR_init example_environ = Inr example_sdr"
  by (simp add: SimpleSDR_init_def example_environ_def example_sdr_def environ_get_def
      py_int_def strip_where_def int_isspace_def py_unsigned_def digit_of_def)

subsection \<open>A failed send leaves the conversation memory alone\<close>

text \<open>
  C2. When the send of the follow-up fails, that is, when the last call of the
  invocation is an SMTP call that returned \<open>False\<close>, \<open>handle_reply\<close> returns normally
  and the object, with its conversation memory, is what it was before: no entry is
  added or changed.
\<close>

theorem handle_reply_send_failure:
  assumes "last (snd (handle_reply c sdr from_email subject body log)) =
             Smtp sender to_email subj reply False"
  shows "fst (handle_reply c sdr from_email subject body log) = Inr sdr"
proof (cases from_email)
  case None
  with assms show ?thesis by (simp add: handle_reply_None_from)
next
  case (Some a)
  show ?thesis
  proof (cases subject)
    case None
    with assms Some show ?thesis by (simp add: handle_reply_None_subject generate_reply_log)
  next
    case (Some s)
    with assms \<open>from_email = Some a\<close> show ?thesis
      by (auto simp: handle_reply_Some Let_def split: if_splits)
  qed
qed

theorem handle_reply_send_failure_witness:
  "last (snd (handle_reply unreachable example_sdr (Some ''x@y.com'') (Some ''Hi'')
                (Some ''Tell me more'') []))
     = Smtp ''sdr@complai.test'' ''x@y.com'' ''Re: Hi'' reply_fallback False
   \<and> fst (handle_reply unreachable example_sdr (Some ''x@y.com'') (Some ''Hi'')
            (Some ''Tell me more'') []) = Inr example_sdr"
proof -
  have h: "last (snd (handle_reply unreachable example_sdr (Some ''x@y.com'') (Some ''Hi'')
                        (Some ''Tell me more'') []))
             = Smtp ''sdr@complai.test'' ''x@y.com'' ''Re: Hi'' reply_fallback False"
    by (simp add: handle_reply_def send_email_smtp_def generate_reply_def chat_completion_def
        unreachable_def example_sdr_def reply_subject_def startswith_def Let_def)
  from handle_reply_send_failure [OF h] h show ?thesis by simp
qed

subsection \<open>The subject of the follow-up\<close>

text \<open>
  C3. The subject that \<open>handle_reply\<close> hands to the SMTP call is the inbound subject
  when that begins with the three characters \<open>Re:\<close>, and \<open>Re: \<close> followed by the inbound
  subject otherwise. The check is an exact prefix comparison. \<open>Demo\<close> becomes
  \<open>Re: Demo\<close>, and \<open>Re: Demo\<close> stays \<open>Re: Demo\<close>.
\<close>

theorem handle_reply_subject:
  "(\<exists>sender reply ok.
      last (snd (handle_reply c sdr (Some from_addr) (Some subject) body log)) =
        Smtp sender from_addr
          (if (\<exists>rest. subject = ''Re:'' @ rest) then subject else ''Re: '' @ subject) reply ok)
   \<and> reply_subject ''Demo'' = ''Re: Demo''
   \<and> reply_subject ''Re: Demo'' = ''Re: Demo''"
proof -
  have "startswith subject ''Re:'' \<longleftrightarrow> (\<exists>rest. subject = ''Re:'' @ rest)"
  proof
    assume "startswith subject ''Re:''"
    then have "subject = ''Re:'' @ drop 3 subject"
      unfolding startswith_def
      by (metis append_take_drop_id length_Cons list.size(3) numeral_3_eq_3)
    then show "\<exists>rest. subject = ''Re:'' @ rest" ..
  next
    assume "\<exists>rest. subject = ''Re:'' @ rest"
    then show "startswith subject ''Re:''" by (auto simp: startswith_def)
  qed
  then have "reply_subject subject =
      (if (\<exists>rest. subject = ''Re:'' @ rest) then subject else ''Re: '' @ subject)"
    by (simp add: reply_subject_def)
  then show ?thesis
    by (simp add: handle_reply_Some Let_def reply_subject_def startswith_def)
qed

subsection \<open>The thread after a successful send\<close>

text \<open>
  C4. When the send of the follow-up succeeds, that is, when the last call of the
  invocation is an SMTP call that returned \<open>True\<close>, \<open>handle_reply\<close> returns normally, the
  text it sent is the follow-up that \<open>generate_reply\<close> produced from the prior thread
  and the inbound body, and the new entry for the sender is the prior thread, then the
  segment labelled \<open>--- THEIR REPLY ---\<close> with the inbound body, then the segment
  labelled \<open>--- MY REPLY ---\<close> with the follow-up. The prior thread is a prefix of the
  new entry.
\<close>

theorem handle_reply_thread:
  assumes "last (snd (handle_reply c sdr (Some from_addr) subject body log)) =
             Smtp sender to_email subj reply True"
  shows "\<exists>sdr'. fst (handle_reply c sdr (Some from_addr) subject body log) = Inr sdr'
           \<and> reply = fst (generate_reply c sdr (conversations_get sdr from_addr) body
                            (log @ [Processing_reply (Some from_addr)]))
           \<and> conversations_get sdr' from_addr =
               conversations_get sdr from_addr @
               ''\<newline>\<newline>--- THEIR REPLY ---\<newline>'' @ py_format body @
               ''\<newline>\<newline>--- MY REPLY ---\<newline>'' @ reply
           \<and> take (length (conversations_get sdr from_addr)) (conversations_get sdr' from_addr) =
               conversations_get sdr from_addr"
proof (cases subject)
  case None
  with assms show ?thesis by (simp add: handle_reply_None_subject generate_reply_log)
next
  case (Some s)
  with assms show ?thesis
    by (auto simp: handle_reply_Some Let_def conversations_get_def conversations_put_def
        updated_thread_def split: if_splits)
qed

theorem handle_reply_thread_witness:
  "last (snd (handle_reply smtp_only example_sdr (Some ''x@y.com'') (Some ''Hi'')
                (Some ''Tell me more'') []))
     = Smtp ''sdr@complai.test'' ''x@y.com'' ''Re: Hi'' reply_fallback True
   \<and> (\<exists>sdr'. fst (handle_reply smtp_only example_sdr (Some ''x@y.com'') (Some ''Hi'')
            (Some ''Tell me more'') []) = Inr sdr'
        \<and> conversations_get sdr' ''x@y.com'' =
            ''\<newline>\<newline>--- THEIR REPLY ---\<newline>Tell me more\<newline>\<newline>--- MY REPLY ---\<newline>'' @ reply_fallback)"
proof -
  have h: "last (snd (handle_reply smtp_only example_sdr (Some ''x@y.com'') (Some ''Hi'')
                        (Some ''Tell me more'') []))
             = Smtp ''sdr@complai.test'' ''x@y.com'' ''Re: Hi'' reply_fallback True"
    by (simp add: handle_reply_def send_email_smtp_def generate_reply_def chat_completion_def
        smtp_only_def example_sdr_def reply_subject_def startswith_def Let_def)
  have e: "conversations_get example_sdr ''x@y.com'' = []"
    by (simp add: conversations_get_def example_sdr_def)
  from handle_reply_thread [OF h] h e show ?thesis by auto
qed

subsection \<open>The conversation memory and its keys\<close>

lemma case_pairs_upper: "(x, y) \<in> set case_pairs \<Longrightarrow> map_of case_pairs x = Some y"
  by (rule map_of_is_SomeI) (simp_all add: case_pairs_def uppercase_def lowercase_def)

lemma case_pairs_lower: "(x, y) \<in> set case_pairs \<Longrightarrow> map_of case_pairs y = None"
proof -
  assume "(x, y) \<in> set case_pairs"
  then have "y \<in> set lowercase"
    unfolding case_pairs_def by (rule set_zip_rightD)
  moreover have "set lowercase \<inter> fst ` set case_pairs = {}"
    by (simp add: case_pairs_def uppercase_def lowercase_def)
  ultimately show ?thesis
    by (metis disjoint_iff map_of_eq_None_iff)
qed

lemma case_pairs_inj: "(x, d) \<in> set case_pairs \<Longrightarrow> (y, d) \<in> set case_pairs \<Longrightarrow> x = y"
proof -
  assume a: "(x, d) \<in> set case_pairs" and b: "(y, d) \<in> set case_pairs"
  have "distinct (map fst (map prod.swap case_pairs))"
    by (simp add: case_pairs_def uppercase_def lowercase_def)
  moreover from a have "(d, x) \<in> set (map prod.swap case_pairs)" by force
  moreover from b have "(d, y) \<in> set (map prod.swap case_pairs)" by force
  ultimately show ?thesis by (rule eq_key_imp_eq_value)
qed



lemma same_letter_lower: "same_letter x y \<Longrightarrow> py_lower_char x = py_lower_char y"
  unfolding same_letter_def py_lower_char_def
  by (auto simp: case_pairs_upper case_pairs_lower)

lemma lower_same_letter: "py_lower_char x = py_lower_char y \<Longrightarrow> same_letter x y"
  unfolding same_letter_def py_lower_char_def
  by (auto split: option.splits dest: map_of_SomeD case_pairs_inj)

lemma differ_only_in_case_key:
  "differ_only_in_case a b \<longleftrightarrow> conversation_key a = conversation_key b"
proof -
  have "list_all2 same_letter a b \<longleftrightarrow> list_all2 (\<lambda>x y. py_lower_char x = py_lower_char y) a b"
    by (rule list.rel_cong) (auto dest: same_letter_lower lower_same_letter)
  also have "\<dots> \<longleftrightarrow> map py_lower_char a = map py_lower_char b"
    by (simp add: list.rel_map list.rel_eq [symmetric])
  finally show ?thesis
    by (simp add: differ_only_in_case_def conversation_key_def py_lower_def)
qed









subsection \<open>The fallback of generate_cold_email\<close>

text \<open>
  C6. For every persona and every recipient title, when the call to the chat API
  fails (it raises, or its answer carries no content), \<open>generate_cold_email\<close> returns
  the canned email, which depends on the recipient title and the company constants
  only and is not empty. The function has no exceptional result at all.
\<close>

theorem generate_cold_email_fallback:
  assumes "\<And>content. chat_api c log (cold_email_prompt sdr persona recipient) \<noteq> Inr (Some content)"
  shows "fst (generate_cold_email c sdr persona recipient log) = cold_email_fallback sdr recipient
         \<and> cold_email_fallback sdr recipient \<noteq> []"
  using assms
  by (auto simp: generate_cold_email_def chat_completion_def cold_email_fallback_def Let_def
      split: sum.splits option.splits)

theorem generate_cold_email_fallback_witness:
  "fst (generate_cold_email unreachable example_sdr ''engaging'' ''Startup CEO'' []) =
     ''Hi Startup CEO,\<newline>\<newline>I'd love to show you how ComplAI can help with AI-powered SOC2 compliance automation.\<newline>\<newline>Interested in a quick chat?\<newline>\<newline>Best regards''"
proof -
  have h: "\<And>content. chat_api unreachable [] (cold_email_prompt example_sdr ''engaging'' ''Startup CEO'')
             \<noteq> Inr (Some content)"
    by (simp add: unreachable_def)
  from generate_cold_email_fallback [of unreachable "[]" example_sdr "''engaging''" "''Startup CEO''", OF h]
  show ?thesis by (simp add: cold_email_fallback_def example_sdr_def)
qed

subsection \<open>What select_best_email returns\<close>

text \<open>
  C7, at an input where it fails. The docstring of \<open>select_best_email\<close> promises the
  selected one of the options, and the prompt asks for it, but the answer of the chat
  API is returned as it comes and nothing compares it with the candidates. With the
  candidates \<open>A\<close>, \<open>B\<close>, \<open>C\<close> and an API that answers with a sentence of its own,
  \<open>select_best_email\<close> returns that sentence, which is none of the three.
\<close>

theorem select_best_email_not_a_candidate:
  "select_best_email off_script [''A'', ''B'', ''C''] [] =
     (Inr ''I would rewrite all three.'',
      [Chat (select_prompt ''A'' ''B'' ''C'') (Inr (Some ''I would rewrite all three.''))])
   \<and> ''I would rewrite all three.'' \<notin> set [''A'', ''B'', ''C'']"
  by (simp add: chat_completion_def off_script_def py_strip_def strip_where_def py_isspace_def
      Let_def)

subsection \<open>select_best_email on short and long lists\<close>

text \<open>
  C10, as stated, fails in its last part: the guarantee does not need exactly 3
  candidates. On a list of 4, with the chat API failing, the first candidate is
  returned and nothing is raised.
\<close>

theorem select_best_email_four_counterexample:
  "select_best_email unreachable [''A'', ''B'', ''C'', ''D''] [] =
     (Inr ''A'', [Chat (select_prompt ''A'' ''B'' ''C'') (Inl ServiceError)])"
  by (simp add: chat_completion_def unreachable_def Let_def)

text \<open>
  C10, amended. The prompt is built from the first three candidates before the guarded
  call. On a list of fewer than 3 candidates \<open>select_best_email\<close> raises \<open>IndexError\<close>
  and makes no call. On a list of at least 3 it returns a text, and when the call
  fails that text is the first candidate.
\<close>

theorem select_best_email_index_error:
  "(length emails < 3 \<longrightarrow> select_best_email c emails log = (Inl IndexError, log))
   \<and> (3 \<le> length emails \<longrightarrow>
        (\<exists>text. fst (select_best_email c emails log) = Inr text)
        \<and> ((\<exists>e. chat_api c log (select_prompt (emails ! 0) (emails ! 1) (emails ! 2)) = Inl e) \<longrightarrow>
             fst (select_best_email c emails log) = Inr (emails ! 0)))"
proof (intro conjI impI)
  assume "length emails < 3"
  then consider "emails = []" | a where "emails = [a]" | a b where "emails = [a, b]"
    by (cases emails; cases "tl emails"; cases "tl (tl emails)") auto
  then show "select_best_email c emails log = (Inl IndexError, log)"
    by cases auto
next
  assume "3 \<le> length emails"
  then obtain e0 e1 e2 rest where e: "emails = e0 # e1 # e2 # rest"
    by (cases emails; cases "tl emails"; cases "tl (tl emails)") auto
  show "\<exists>text. fst (select_best_email c emails log) = Inr text"
    by (simp add: e chat_completion_def Let_def split: sum.splits option.splits)
  assume "\<exists>x. chat_api c log (select_prompt (emails ! 0) (emails ! 1) (emails ! 2)) = Inl x"
  then show "fst (select_best_email c emails log) = Inr (emails ! 0)"
    by (auto simp: e chat_completion_def Let_def)
qed

theorem select_best_email_index_error_witness:
  "select_best_email unreachable [''A'', ''B''] [] = (Inl IndexError, [])
   \<and> fst (select_best_email unreachable [''A'', ''B'', ''C'', ''D''] []) = Inr ''A''"
proof -
  have s: "length [''A'', ''B''] < 3" and l: "3 \<le> length [''A'', ''B'', ''C'', ''D'']"
    by simp_all
  have f: "\<exists>e. chat_api unreachable []
             (select_prompt ([''A'', ''B'', ''C'', ''D''] ! 0) ([''A'', ''B'', ''C'', ''D''] ! 1)
                ([''A'', ''B'', ''C'', ''D''] ! 2)) = Inl e"
    by (simp add: unreachable_def)
  from select_best_email_index_error [of "[''A'', ''B'']" unreachable "[]"]
    select_best_email_index_error [of "[''A'', ''B'', ''C'', ''D'']" unreachable "[]"] s l f
  show ?thesis by simp
qed

subsection \<open>The keys of the campaign and the key of a reply\<close>

lemma generate_emails_three:
  "\<exists>e0 e1 e2 log'. generate_emails c sdr [p0, p1, p2] log = ([e0, e1, e2], log')"
  by (simp add: Let_def split: prod.splits)

lemma select_best_email_three:
  "\<exists>best log'. select_best_email c [e0, e1, e2] log = (Inr best, log')"
  by (simp add: split: prod.splits sum.splits)

lemma campaign_step_result:
  "\<exists>log'. campaign_step c sdr recipient log = (Inr sdr, log')
     \<or> (\<exists>best. campaign_step c sdr recipient log =
                  (Inr (conversations_put sdr recipient best), log'))"
proof -
  obtain e0 e1 e2 log1 where
    g: "generate_emails c sdr [''professional'', ''engaging'', ''concise''] log =
          ([e0, e1, e2], log1)"
    using generate_emails_three by blast
  obtain best log2 where s: "select_best_email c [e0, e1, e2] log1 = (Inr best, log2)"
    using select_best_email_three by blast
  show ?thesis
    unfolding campaign_step_def g
    by (auto simp del: select_best_email.simps simp add: s Let_def split: prod.splits)
qed

lemma campaign_other_keys:
  "run_cold_email_campaign c sdr recipients log = (raised, sdr', log') \<Longrightarrow>
   \<forall>r \<in> set recipients. k \<noteq> conversation_key r \<Longrightarrow>
   conversations sdr' k = conversations sdr k"
proof (induction recipients arbitrary: sdr log)
  case Nil
  then show ?case by simp
next
  case (Cons r rs)
  from campaign_step_result [of c sdr r log]
  obtain log1 where "campaign_step c sdr r log = (Inr sdr, log1)
     \<or> (\<exists>best. campaign_step c sdr r log = (Inr (conversations_put sdr r best), log1))"
    by blast
  then show ?case
  proof
    assume "campaign_step c sdr r log = (Inr sdr, log1)"
    with Cons show ?thesis by simp
  next
    assume "\<exists>best. campaign_step c sdr r log = (Inr (conversations_put sdr r best), log1)"
    then obtain best where
      "campaign_step c sdr r log = (Inr (conversations_put sdr r best), log1)" ..
    with Cons.prems
    have "run_cold_email_campaign c (conversations_put sdr r best) rs log1 = (raised, sdr', log')"
      by simp
    with Cons.IH Cons.prems(2)
    have "conversations sdr' k = conversations (conversations_put sdr r best) k"
      by simp
    with Cons.prems(2) show ?thesis by (simp add: conversations_put_def)
  qed
qed

lemma example_campaign:
  "\<exists>log. run_cold_email_campaign smtp_only example_sdr [''a@b.com''] [] = (None, campaign_sdr, log)"
  by (simp add: campaign_step_def generate_cold_email_def chat_completion_def generate_subject_def
      send_email_smtp_def smtp_only_def campaign_sdr_def Let_def)

lemma campaign_step_keys:
  "\<exists>subject best ok log'.
      campaign_step c sdr recipient log =
        (Inr (if ok then sdr\<lparr>conversations := (conversations sdr)(py_lower recipient \<mapsto> best)\<rparr>
              else sdr), log')
      \<and> last log' = Smtp (email_address sdr) recipient subject best ok"
proof -
  obtain e0 e1 e2 log1 where
    g: "generate_emails c sdr [''professional'', ''engaging'', ''concise''] log =
          ([e0, e1, e2], log1)"
    using generate_emails_three by blast
  obtain best log2 where s: "select_best_email c [e0, e1, e2] log1 = (Inr best, log2)"
    using select_best_email_three by blast
  show ?thesis
    unfolding campaign_step_def g
    by (auto simp del: select_best_email.simps
        simp add: s Let_def send_email_smtp_def conversations_put_def conversation_key_def
        split: prod.splits)
qed

text \<open>
  C9, as stated, fails in one part: a reply whose From string differs from the
  recipient string does not always read an empty thread. After a campaign to
  \<open>a@b.com\<close> and one answered reply from \<open>Name <a@b.com>\<close>, a second reply with the
  same From string reads the thread that the first one stored under its own key.
\<close>

theorem second_reply_counterexample:
  "run_cold_email_campaign smtp_only example_sdr [''a@b.com''] [] =
     (None, campaign_sdr,
      snd (snd (run_cold_email_campaign smtp_only example_sdr [''a@b.com''] [])))
   \<and> \<not> differ_only_in_case ''Name <a@b.com>'' ''a@b.com''
   \<and> fst (handle_reply smtp_only campaign_sdr (Some ''Name <a@b.com>'') (Some ''Hi'')
            (Some ''Tell me more'') []) = Inr replied_sdr
   \<and> conversations_get replied_sdr ''Name <a@b.com>'' =
       ''\<newline>\<newline>--- THEIR REPLY ---\<newline>Tell me more\<newline>\<newline>--- MY REPLY ---\<newline>'' @ reply_fallback
   \<and> snd (handle_reply smtp_only replied_sdr (Some ''Name <a@b.com>'') (Some ''Re: Hi'')
            (Some ''What does it cost?'') []) ! 1 =
       Chat (reply_prompt replied_sdr
               (''\<newline>\<newline>--- THEIR REPLY ---\<newline>Tell me more\<newline>\<newline>--- MY REPLY ---\<newline>'' @ reply_fallback)
               (Some ''What does it cost?'')) (Inl ServiceError)"
proof -
  have k1: "conversation_key ''Name <a@b.com>'' = ''name <a@b.com>''"
    by (simp add: conversation_key_def py_lower_def py_lower_char_def case_pairs_def
        uppercase_def lowercase_def)
  have r: "run_cold_email_campaign smtp_only example_sdr [''a@b.com''] [] =
     (None, campaign_sdr,
      snd (snd (run_cold_email_campaign smtp_only example_sdr [''a@b.com''] [])))"
    using example_campaign by auto
  have n: "\<not> differ_only_in_case ''Name <a@b.com>'' ''a@b.com''"
    by (simp add: differ_only_in_case_def)
  have e: "conversations_get campaign_sdr ''Name <a@b.com>'' = []"
    by (simp add: conversations_get_def k1 campaign_sdr_def conversations_put_def
        conversation_key_def py_lower_def example_sdr_def)
  have h: "fst (handle_reply smtp_only campaign_sdr (Some ''Name <a@b.com>'') (Some ''Hi'')
            (Some ''Tell me more'') []) = Inr replied_sdr"
    by (simp add: handle_reply_Some e generate_reply_def chat_completion_def Let_def replied_sdr_def)
      (simp add: smtp_only_def)
  have t: "conversations_get replied_sdr ''Name <a@b.com>'' =
       ''\<newline>\<newline>--- THEIR REPLY ---\<newline>Tell me more\<newline>\<newline>--- MY REPLY ---\<newline>'' @ reply_fallback"
    by (simp add: replied_sdr_def conversations_get_def conversations_put_def updated_thread_def)
  have c: "snd (handle_reply smtp_only replied_sdr (Some ''Name <a@b.com>'') (Some ''Re: Hi'')
            (Some ''What does it cost?'') []) ! 1 =
       Chat (reply_prompt replied_sdr
               (''\<newline>\<newline>--- THEIR REPLY ---\<newline>Tell me more\<newline>\<newline>--- MY REPLY ---\<newline>'' @ reply_fallback)
               (Some ''What does it cost?'')) (Inl ServiceError)"
    by (simp add: handle_reply_Some t generate_reply_def chat_completion_def Let_def)
      (simp add: smtp_only_def)
  from r n h t c show ?thesis by blast
qed

text \<open>
  C9, amended. The key under which \<open>handle_reply\<close> reads and writes is the From string
  lower-cased character by character, with no extraction and no trimming; the campaign
  stores the selected email under the lower-cased recipient string when its send
  succeeds. For every reply whose From string is not equal, up to letter case, to the
  recipient string, the two keys differ: \<open>handle_reply\<close> reads the thread stored under its
  own key, which the campaign's entry does not change (so it reads the empty thread as
  long as nothing was stored under that key), and writes its update under its own key,
  leaving the campaign's entry as it was.
\<close>

theorem reply_key_mismatch:
  assumes "\<not> differ_only_in_case from_addr recipient"
  shows "conversation_key from_addr = map py_lower_char from_addr
     \<and> (\<exists>subj sent ok log'.
          campaign_step c sdr recipient log =
            (Inr (if ok then sdr\<lparr>conversations := (conversations sdr)(py_lower recipient \<mapsto> sent)\<rparr>
                  else sdr), log')
          \<and> last log' = Smtp (email_address sdr) recipient subj sent ok)
     \<and> handle_reply c' sdr (Some from_addr) (Some subject) body log =
         (let thread = (case conversations sdr (py_lower from_addr) of None \<Rightarrow> [] | Some t \<Rightarrow> t);
              g = generate_reply c' sdr thread body (log @ [Processing_reply (Some from_addr)]);
              ok = smtp_api c' (snd g) (email_address sdr) from_addr (reply_subject subject) (fst g)
          in (Inr (if ok then
                     sdr\<lparr>conversations :=
                       (conversations sdr)(py_lower from_addr \<mapsto> updated_thread thread body (fst g))\<rparr>
                   else sdr),
              snd g @ [Smtp (email_address sdr) from_addr (reply_subject subject) (fst g) ok]))
     \<and> py_lower from_addr \<noteq> py_lower recipient
     \<and> conversations_get (sdr\<lparr>conversations := (conversations sdr)(py_lower recipient \<mapsto> best)\<rparr>)
          from_addr = conversations_get sdr from_addr
     \<and> (\<forall>sdr'. fst (handle_reply c' sdr (Some from_addr) (Some subject) body log) = Inr sdr' \<longrightarrow>
           conversations sdr' (py_lower recipient) = conversations sdr (py_lower recipient))
     \<and> ((\<forall>r \<in> set recipients. \<not> differ_only_in_case from_addr r) \<longrightarrow>
           conversations_get (fst (snd (run_cold_email_campaign c sdr recipients log))) from_addr =
             conversations_get sdr from_addr)"
proof -
  have neq: "py_lower from_addr \<noteq> py_lower recipient"
    using assms differ_only_in_case_key [of from_addr recipient]
    by (simp add: conversation_key_def)
  have key: "conversation_key from_addr = map py_lower_char from_addr"
    by (simp add: conversation_key_def py_lower_def)
  have call: "handle_reply c' sdr (Some from_addr) (Some subject) body log =
         (let thread = (case conversations sdr (py_lower from_addr) of None \<Rightarrow> [] | Some t \<Rightarrow> t);
              g = generate_reply c' sdr thread body (log @ [Processing_reply (Some from_addr)]);
              ok = smtp_api c' (snd g) (email_address sdr) from_addr (reply_subject subject) (fst g)
          in (Inr (if ok then
                     sdr\<lparr>conversations :=
                       (conversations sdr)(py_lower from_addr \<mapsto> updated_thread thread body (fst g))\<rparr>
                   else sdr),
              snd g @ [Smtp (email_address sdr) from_addr (reply_subject subject) (fst g) ok]))"
    by (simp add: handle_reply_Some Let_def conversations_put_def conversations_get_def
        conversation_key_def)
  have read: "conversations_get (sdr\<lparr>conversations := (conversations sdr)(py_lower recipient \<mapsto> best)\<rparr>)
          from_addr = conversations_get sdr from_addr"
    using neq by (simp add: conversations_get_def conversation_key_def)
  have kept: "\<forall>sdr'. fst (handle_reply c' sdr (Some from_addr) (Some subject) body log) = Inr sdr' \<longrightarrow>
           conversations sdr' (py_lower recipient) = conversations sdr (py_lower recipient)"
    using neq by (auto simp: call Let_def split: if_splits)
  have run: "conversations_get (fst (snd (run_cold_email_campaign c sdr recipients log))) from_addr =
             conversations_get sdr from_addr"
    if "\<forall>r \<in> set recipients. \<not> differ_only_in_case from_addr r"
  proof -
    obtain raised sdr1 log1 where
      r: "run_cold_email_campaign c sdr recipients log = (raised, sdr1, log1)"
      by (cases "run_cold_email_campaign c sdr recipients log") auto
    have "\<forall>r \<in> set recipients. conversation_key from_addr \<noteq> conversation_key r"
      using that differ_only_in_case_key by blast
    from campaign_other_keys [OF r this] r show ?thesis
      by (simp add: conversations_get_def)
  qed
  from key campaign_step_keys [of c sdr recipient log] call neq read kept run
  show ?thesis by blast
qed

theorem reply_key_mismatch_witness:
  "\<not> differ_only_in_case ''Name <a@b.com>'' ''a@b.com''
   \<and> conversation_key ''Name <a@b.com>'' = ''name <a@b.com>''
   \<and> py_lower ''Name <a@b.com>'' \<noteq> py_lower ''a@b.com''
   \<and> conversations_get campaign_sdr ''a@b.com'' = cold_email_fallback example_sdr ''CEO''
   \<and> conversations_get campaign_sdr ''Name <a@b.com>'' = []
   \<and> fst (handle_reply smtp_only campaign_sdr (Some ''Name <a@b.com>'') (Some ''Hi'')
            (Some ''Tell me more'') []) = Inr replied_sdr
   \<and> conversations_get replied_sdr ''a@b.com'' = cold_email_fallback example_sdr ''CEO''"
proof -
  have n: "\<not> differ_only_in_case ''Name <a@b.com>'' ''a@b.com''"
    by (simp add: differ_only_in_case_def)
  have k: "conversation_key ''Name <a@b.com>'' = ''name <a@b.com>''"
    by (simp add: conversation_key_def py_lower_def py_lower_char_def case_pairs_def
        uppercase_def lowercase_def)
  have e: "conversations_get example_sdr ''Name <a@b.com>'' = []"
    by (simp add: conversations_get_def example_sdr_def)
  have s: "conversations_get campaign_sdr ''a@b.com'' = cold_email_fallback example_sdr ''CEO''"
    by (simp add: conversations_get_def campaign_sdr_def conversations_put_def)
  have c: "campaign_sdr = example_sdr\<lparr>conversations :=
             (conversations example_sdr)(py_lower ''a@b.com'' \<mapsto> cold_email_fallback example_sdr ''CEO'')\<rparr>"
    by (simp add: campaign_sdr_def conversations_put_def conversation_key_def)
  have g: "generate_reply smtp_only campaign_sdr [] (Some ''Tell me more'')
             [Processing_reply (Some ''Name <a@b.com>'')]
      = (reply_fallback, [Processing_reply (Some ''Name <a@b.com>''),
           Chat (reply_prompt campaign_sdr [] (Some ''Tell me more'')) (Inl ServiceError)])"
    by (simp add: generate_reply_def chat_completion_def smtp_only_def Let_def)
  have p: "smtp_api smtp_only l a b d f" for l a b d f
    by (simp add: smtp_only_def)
  note t = reply_key_mismatch [OF n, of smtp_only example_sdr "[]" smtp_only "''Hi''"
      "Some ''Tell me more''" "cold_email_fallback example_sdr ''CEO''" "[]"]
    reply_key_mismatch [OF n, of smtp_only campaign_sdr "[]" smtp_only "''Hi''"
      "Some ''Tell me more''" "cold_email_fallback example_sdr ''CEO''" "[]"]
  have r: "conversations_get campaign_sdr ''Name <a@b.com>'' = []"
    using t(1) e c by simp
  have l: "py_lower ''Name <a@b.com>'' \<noteq> py_lower ''a@b.com''"
    using t(1) by simp
  have h: "fst (handle_reply smtp_only campaign_sdr (Some ''Name <a@b.com>'') (Some ''Hi'')
            (Some ''Tell me more'') []) = Inr replied_sdr"
    using t(2) r k g p
    by (simp add: Let_def replied_sdr_def conversations_put_def conversations_get_def
        conversation_key_def)
  have q: "conversations_get replied_sdr ''a@b.com'' = cold_email_fallback example_sdr ''CEO''"
    using t(2) h s by (simp add: conversations_get_def conversation_key_def)
  from n k l s r h q show ?thesis by blast
qed

subsection \<open>The webhook and the conversation memory\<close>

text \<open>
  C1, at an input where the two paths part. The monitored object holds the thread
  \<open>Hello\<close> for \<open>x@y.com\<close>, and a reply arrives from that address. Through
  \<open>check_for_replies\<close> the follow-up is generated from the thread \<open>Hello\<close> and the thread
  is extended in the object. Through \<open>handle_webhook_reply\<close> the follow-up is generated
  from the empty thread of the object built for the request; the monitored object is
  no argument of the webhook and is not touched. The two prompts differ.
\<close>

theorem webhook_ignores_conversations:
  "check_for_replies smtp_only seeded_sdr example_inbox [] =
     (conversations_put seeded_sdr ''x@y.com''
        (''Hello\<newline>\<newline>--- THEIR REPLY ---\<newline>Tell me more\<newline>\<newline>--- MY REPLY ---\<newline>'' @ reply_fallback),
      store_seen 0 example_inbox,
      [Processing_reply (Some ''x@y.com''),
       Chat (reply_prompt example_sdr ''Hello'' (Some ''Tell me more'')) (Inl ServiceError),
       Smtp ''sdr@complai.test'' ''x@y.com'' ''Re: Hi'' reply_fallback True])
   \<and> handle_webhook_reply smtp_only example_environ (Inr example_request) [] =
     (Success_200,
      [Processing_reply (Some ''x@y.com''),
       Chat (reply_prompt example_sdr [] (Some ''Tell me more'')) (Inl ServiceError),
       Smtp ''sdr@complai.test'' ''x@y.com'' ''Re: Hi'' reply_fallback True])
   \<and> reply_prompt example_sdr ''Hello'' (Some ''Tell me more'') \<noteq>
       reply_prompt example_sdr [] (Some ''Tell me more'')"
proof -
  have k: "conversation_key ''x@y.com'' = ''x@y.com''"
    by (simp add: conversation_key_def py_lower_def py_lower_char_def case_pairs_def
        uppercase_def lowercase_def)
  have p: "reply_prompt seeded_sdr = reply_prompt example_sdr"
    by (rule ext)+ (simp add: reply_prompt_def seeded_sdr_def conversations_put_def)
  have q: "conversations_get seeded_sdr ''x@y.com'' = ''Hello''"
    by (simp add: conversations_get_def seeded_sdr_def conversations_put_def)
  have m: "email_address seeded_sdr = ''sdr@complai.test''"
    by (simp add: seeded_sdr_def conversations_put_def example_sdr_def)
  have h: "handle_reply smtp_only seeded_sdr (Some ''x@y.com'') (Some ''Hi'')
             (Some ''Tell me more'') [] =
     (Inr (conversations_put seeded_sdr ''x@y.com''
             (''Hello\<newline>\<newline>--- THEIR REPLY ---\<newline>Tell me more\<newline>\<newline>--- MY REPLY ---\<newline>'' @ reply_fallback)),
      [Processing_reply (Some ''x@y.com''),
       Chat (reply_prompt example_sdr ''Hello'' (Some ''Tell me more'')) (Inl ServiceError),
       Smtp ''sdr@complai.test'' ''x@y.com'' ''Re: Hi'' reply_fallback True])"
    by (simp add: handle_reply_Some generate_reply_def chat_completion_def smtp_only_def p q m
        reply_subject_def startswith_def updated_thread_def Let_def)
  have u: "search_unseen example_inbox = [0]"
    by (simp add: search_unseen_def example_inbox_def)
  have e: "entries example_inbox ! 0 = \<lparr> seen = False, fetch_ok = True, message = example_message \<rparr>"
    by (simp add: example_inbox_def)
  have f: "fetch 0 example_inbox = store_seen 0 example_inbox"
    by (simp add: fetch_def e)
  have i: "store_seen 0 (store_seen 0 example_inbox) = store_seen 0 example_inbox"
    by (simp add: store_seen_def example_inbox_def)
  have l: "login_ok example_inbox" "search_ok example_inbox"
    by (simp_all add: example_inbox_def)
  have a: "check_for_replies smtp_only seeded_sdr example_inbox [] =
     (conversations_put seeded_sdr ''x@y.com''
        (''Hello\<newline>\<newline>--- THEIR REPLY ---\<newline>Tell me more\<newline>\<newline>--- MY REPLY ---\<newline>'' @ reply_fallback),
      store_seen 0 example_inbox,
      [Processing_reply (Some ''x@y.com''),
       Chat (reply_prompt example_sdr ''Hello'' (Some ''Tell me more'')) (Inl ServiceError),
       Smtp ''sdr@complai.test'' ''x@y.com'' ''Re: Hi'' reply_fallback True])"
    by (simp add: check_for_replies_def check_for_replies_handled_def l u e f i Let_def
        message_body_def example_message_def h)
  have b: "handle_webhook_reply smtp_only example_environ (Inr example_request) [] =
     (Success_200,
      [Processing_reply (Some ''x@y.com''),
       Chat (reply_prompt example_sdr [] (Some ''Tell me more'')) (Inl ServiceError),
       Smtp ''sdr@complai.test'' ''x@y.com'' ''Re: Hi'' reply_fallback True])"
    by (simp add: handle_webhook_reply_def example_init example_request_def handle_reply_Some
        generate_reply_def chat_completion_def smtp_only_def conversations_get_def k
        reply_subject_def startswith_def Let_def)
      (simp add: example_sdr_def)
  have c: "reply_prompt example_sdr ''Hello'' (Some ''Tell me more'') \<noteq>
       reply_prompt example_sdr [] (Some ''Tell me more'')"
    by (simp add: reply_prompt_def)
  from a b c show ?thesis by blast
qed

subsection \<open>Every message is handed to handle_reply at most once\<close>

lemma handle_reply_processing:
  "length (filter is_processing (snd (handle_reply c sdr from_email subject body log))) =
     Suc (length (filter is_processing log))"
proof (cases from_email)
  case None
  then show ?thesis by (simp add: handle_reply_None_from)
next
  case (Some a)
  then show ?thesis
    by (cases subject)
      (simp_all add: handle_reply_None_subject handle_reply_Some generate_reply_log Let_def)
qed

lemma store_seen_length: "length (entries (store_seen i mail)) = length (entries mail)"
  by (simp add: store_seen_def)

lemma store_seen_nth:
  "j < length (entries mail) \<Longrightarrow>
     seen (entries (store_seen i mail) ! j) \<longleftrightarrow> j = i \<or> seen (entries mail ! j)"
  by (cases "j = i") (simp_all add: store_seen_def)

lemmas store_seen_entries = store_seen_length store_seen_nth

lemma fetch_entries:
  "length (entries (fetch i mail)) = length (entries mail)"
  "j < length (entries mail) \<Longrightarrow> seen (entries mail ! j) \<Longrightarrow> seen (entries (fetch i mail) ! j)"
  "i < length (entries mail) \<Longrightarrow> fetch_ok (entries mail ! i) \<Longrightarrow> seen (entries (fetch i mail) ! i)"
  by (auto simp: fetch_def store_seen_entries)

lemma process_messages_handled:
  assumes "process_messages c ids sdr mail log = (raised, sdr', mail', log', handled)"
    and "\<forall>i \<in> set ids. i < length (entries mail)"
  shows "length (entries mail') = length (entries mail)
     \<and> (\<forall>j < length (entries mail). seen (entries mail ! j) \<longrightarrow> seen (entries mail' ! j))
     \<and> set handled \<subseteq> set ids
     \<and> (distinct ids \<longrightarrow> distinct handled)
     \<and> (\<forall>i \<in> set handled. seen (entries mail' ! i))
     \<and> length (filter is_processing log') = length (filter is_processing log) + length handled"
  using assms
proof (induction ids arbitrary: sdr mail log raised sdr' mail' log' handled)
  case Nil
  then show ?case by simp
next
  case (Cons i ids)
  have i: "i < length (entries mail)" using Cons.prems(2) by simp
  show ?case
  proof (cases "fetch_ok (entries mail ! i)")
    case False
    then have f: "fetch i mail = mail" by (simp add: fetch_def)
    from Cons.prems(1) False f
    have "process_messages c ids sdr mail log = (raised, sdr', mail', log', handled)"
      by (simp add: Let_def)
    from Cons.IH [OF this] Cons.prems(2) show ?thesis by auto
  next
    case True
    note ok = this
    show ?thesis
    proof (cases "message_body (message (entries mail ! i))")
      case (Inl e)
      with Cons.prems(1) ok have "mail' = fetch i mail" "log' = log" "handled = []"
        by (simp_all add: Let_def)
      then show ?thesis by (simp add: fetch_entries)
    next
      case (Inr body)
      obtain r log1 where h: "handle_reply c sdr (header_From (message (entries mail ! i)))
          (header_Subject (message (entries mail ! i))) (Some body) log = (r, log1)"
        by (cases "handle_reply c sdr (header_From (message (entries mail ! i)))
          (header_Subject (message (entries mail ! i))) (Some body) log") auto
      have p: "length (filter is_processing log1) = Suc (length (filter is_processing log))"
        using handle_reply_processing [of c sdr "header_From (message (entries mail ! i))"
            "header_Subject (message (entries mail ! i))" "Some body" log] h by simp
      show ?thesis
      proof (cases r)
        case (Inl e)
        with Cons.prems(1) ok Inr h
        have "mail' = fetch i mail" "log' = log1" "handled = [i]"
          by (simp_all add: Let_def)
        with p i ok show ?thesis by (simp add: fetch_entries)
      next
        case (Inr sdr1)
        let ?m = "store_seen i (fetch i mail)"
        obtain raised2 sdr2 mail2 log2 handled2 where
          rec: "process_messages c ids sdr1 ?m log1 = (raised2, sdr2, mail2, log2, handled2)"
          by (cases "process_messages c ids sdr1 ?m log1") auto
        with Cons.prems(1) ok \<open>message_body (message (entries mail ! i)) = Inr body\<close> h Inr
        have res: "mail' = mail2" "log' = log2" "handled = i # handled2"
          by (simp_all add: Let_def)
        have len: "length (entries ?m) = length (entries mail)"
          by (simp add: store_seen_entries fetch_entries)
        have "\<forall>k \<in> set ids. k < length (entries ?m)"
          using Cons.prems(2) len by simp
        from Cons.IH [OF rec this]
        have ih: "length (entries mail2) = length (entries ?m)"
          "\<forall>j < length (entries ?m). seen (entries ?m ! j) \<longrightarrow> seen (entries mail2 ! j)"
          "set handled2 \<subseteq> set ids"
          "distinct ids \<longrightarrow> distinct handled2"
          "\<forall>k \<in> set handled2. seen (entries mail2 ! k)"
          "length (filter is_processing log2) = length (filter is_processing log1) + length handled2"
          by simp_all
        have si: "seen (entries ?m ! i)"
          using i by (simp add: store_seen_entries fetch_entries)
        have mono: "\<forall>j < length (entries mail). seen (entries mail ! j) \<longrightarrow> seen (entries ?m ! j)"
          by (simp add: store_seen_entries fetch_entries)
        from ih si mono len i p res show ?thesis by auto
      qed
    qed
  qed
qed

lemma search_unseen_ids:
  "distinct (search_unseen mail)"
  "i \<in> set (search_unseen mail) \<longleftrightarrow> i < length (entries mail) \<and> \<not> seen (entries mail ! i)"
  by (auto simp: search_unseen_def)

lemma check_for_replies_handled_inv:
  assumes "check_for_replies_handled c sdr mail log = ((sdr', mail', log'), handled)"
  shows "length (entries mail') = length (entries mail)
     \<and> (\<forall>j < length (entries mail). seen (entries mail ! j) \<longrightarrow> seen (entries mail' ! j))
     \<and> distinct handled
     \<and> (\<forall>i \<in> set handled. i < length (entries mail) \<and> \<not> seen (entries mail ! i)
                              \<and> seen (entries mail' ! i))
     \<and> length (filter is_processing log') = length (filter is_processing log) + length handled"
proof (cases "login_ok mail \<and> search_ok mail")
  case False
  with assms show ?thesis by (auto simp: check_for_replies_handled_def split: if_splits)
next
  case True
  obtain raised where
    p: "process_messages c (search_unseen mail) sdr mail log = (raised, sdr', mail', log', handled)"
    using assms True
    by (cases "process_messages c (search_unseen mail) sdr mail log")
      (auto simp: check_for_replies_handled_def)
  have "\<forall>i \<in> set (search_unseen mail). i < length (entries mail)"
    by (simp add: search_unseen_ids)
  from process_messages_handled [OF p this] show ?thesis
    using search_unseen_ids by auto
qed

text \<open>
  C8. Take any number of cycles of the monitor loop, with any mail arriving between
  them, any answers of the services and any messages, those whose handling raises
  included. The messages handed to \<open>handle_reply\<close> in these cycles are pairwise
  different: no message is handed over twice. Each of them is marked seen in the
  mailbox afterwards and, whatever mail arrives next, is not among the unseen messages
  that the next search returns. The log holds one invocation of \<open>handle_reply\<close> for each of them and no
  other.
\<close>

theorem at_most_once_delivery:
  assumes "monitor c arrivals n sdr mail log = ((sdr', mail', log'), handled)"
  shows "distinct handled
     \<and> (\<forall>i \<in> set handled. i < length (entries mail') \<and> seen (entries mail' ! i)
           \<and> (\<forall>new_mail. i \<notin> set (search_unseen (deliver new_mail mail'))))
     \<and> length (filter is_processing log') = length (filter is_processing log) + length handled"
  using assms
proof (induction n arbitrary: sdr' mail' log' handled)
  case 0
  then show ?case by simp
next
  case (Suc n)
  obtain sdr1 mail1 log1 handled1 where
    m: "monitor c arrivals n sdr mail log = ((sdr1, mail1, log1), handled1)"
    by (cases "monitor c arrivals n sdr mail log") auto
  let ?mail = "deliver (arrivals n) mail1"
  obtain handled2 where
    c: "check_for_replies_handled c sdr1 ?mail log1 = ((sdr', mail', log'), handled2)"
    and h: "handled = handled1 @ handled2"
    using Suc.prems m
    by (cases "check_for_replies_handled c sdr1 ?mail log1") auto
  from Suc.IH [OF m]
  have ih: "distinct handled1"
    "\<forall>i \<in> set handled1. i < length (entries mail1) \<and> seen (entries mail1 ! i)"
    "length (filter is_processing log1) = length (filter is_processing log) + length handled1"
    by simp_all
  have d: "\<forall>i \<in> set handled1. i < length (entries ?mail) \<and> seen (entries ?mail ! i)"
    using ih(2) by (auto simp: deliver_def nth_append)
  from check_for_replies_handled_inv [OF c]
  have inv: "length (entries mail') = length (entries ?mail)"
    "\<forall>j < length (entries ?mail). seen (entries ?mail ! j) \<longrightarrow> seen (entries mail' ! j)"
    "distinct handled2"
    "\<forall>i \<in> set handled2. i < length (entries ?mail) \<and> \<not> seen (entries ?mail ! i)
                              \<and> seen (entries mail' ! i)"
    "length (filter is_processing log') = length (filter is_processing log1) + length handled2"
    by simp_all
  have "set handled1 \<inter> set handled2 = {}"
    using d inv(4) by blast
  with ih(1) inv(3) h have "distinct handled" by simp
  moreover have "\<forall>i \<in> set handled. i < length (entries mail') \<and> seen (entries mail' ! i)"
    using h d inv(1,2,4) by auto
  moreover have "length (filter is_processing log') = length (filter is_processing log) + length handled"
    using h ih(3) inv(5) by simp
  ultimately show ?case by (auto simp: search_unseen_ids deliver_def nth_append)
qed

theorem at_most_once_delivery_witness:
  "monitor smtp_only (\<lambda>k. []) 2 example_sdr no_subject_inbox [] =
     ((example_sdr, store_seen 0 no_subject_inbox,
       [Processing_reply (Some ''x@y.com''),
        Chat (reply_prompt example_sdr [] (Some ''Tell me more'')) (Inl ServiceError)]),
      [0])
   \<and> search_unseen no_subject_inbox = [0]
   \<and> seen (entries (store_seen 0 no_subject_inbox) ! 0)
   \<and> search_unseen (store_seen 0 no_subject_inbox) = []"
proof -
  have u: "search_unseen no_subject_inbox = [0]"
    by (simp add: search_unseen_def no_subject_inbox_def)
  have e: "entries no_subject_inbox ! 0 =
             \<lparr> seen = False, fetch_ok = True, message = no_subject_message \<rparr>"
    by (simp add: no_subject_inbox_def)
  have f: "fetch 0 no_subject_inbox = store_seen 0 no_subject_inbox"
    by (simp add: fetch_def e)
  have l: "login_ok no_subject_inbox" "search_ok no_subject_inbox"
    by (simp_all add: no_subject_inbox_def)
  have l': "login_ok (store_seen 0 no_subject_inbox)" "search_ok (store_seen 0 no_subject_inbox)"
    by (simp_all add: no_subject_inbox_def store_seen_def)
  have u': "search_unseen (store_seen 0 no_subject_inbox) = []"
    by (simp add: search_unseen_def no_subject_inbox_def store_seen_def)
  have k: "conversations_get example_sdr ''x@y.com'' = []"
    by (simp add: conversations_get_def example_sdr_def)
  have d: "deliver [] mail = mail" for mail
    by (simp add: deliver_def)
  have c1: "check_for_replies_handled smtp_only example_sdr no_subject_inbox [] =
     ((example_sdr, store_seen 0 no_subject_inbox,
       [Processing_reply (Some ''x@y.com''),
        Chat (reply_prompt example_sdr [] (Some ''Tell me more'')) (Inl ServiceError)]), [0])"
    by (simp add: check_for_replies_handled_def l u e f Let_def message_body_def
        no_subject_message_def handle_reply_None_subject generate_reply_log k)
      (simp add: smtp_only_def)
  have c2: "check_for_replies_handled smtp_only example_sdr (store_seen 0 no_subject_inbox) log =
     ((example_sdr, store_seen 0 no_subject_inbox, log), [])" for log
    by (simp add: check_for_replies_handled_def l' u')
  have m: "monitor smtp_only (\<lambda>k. []) 2 example_sdr no_subject_inbox [] =
     ((example_sdr, store_seen 0 no_subject_inbox,
       [Processing_reply (Some ''x@y.com''),
        Chat (reply_prompt example_sdr [] (Some ''Tell me more'')) (Inl ServiceError)]),
      [0])"
    by (simp add: numeral_2_eq_2 d c1 c2)
  from at_most_once_delivery [OF m] m u u' show ?thesis by simp
qed

end
